theory Spec2Isabelle
  imports Complex_Main "HOL-Library.Char_ord" "HOL-Library.List_Lexorder" "HOL-Library.Multiset"
begin

section \<open>BMI calculator and tracker: a shallow embedding of \<open>bmi_gui_app.py\<close>\<close>

text \<open>
  Conventions of the embedding.
  \<^item> A Python \<open>float\<close> is a \<open>pyfloat\<close>: a finite number, an infinity or NaN. A finite
    float is the real number it denotes. An operation overflows, or rounds its result to
    zero, where binary64 does under round-to-nearest; between those limits the result is
    kept exact, so the rounding of a result to 53 bits and the sign of a zero are outside
    the model.
  \<^item> A Python \<open>str\<close> is a \<^typ>\<open>string\<close>, one \<^typ>\<open>char\<close> per code point below 256.
  \<^item> An SQLite \<open>INTEGER\<close> is an \<^typ>\<open>int\<close>.
  \<^item> The database file is an explicit state \<open>db\<close> that every helper takes and, when it
    writes, returns updated. Each helper opens, commits and closes its own connection, so a
    helper is one atomic step on that state.
  \<^item> A raised exception is the \<open>Inl\<close> of a sum, or \<open>None\<close> where a caller only
    tells whether one was raised.
  \<^item> The builtin \<open>float(...)\<close>, the clock, the file dialog and the module flag
    \<open>PANDAS_AVAILABLE\<close> are parameters of the functions that use them.
\<close>

subsection \<open>Exceptions\<close>

datatype py_error = ValueError string | ZeroDivisionError | OverflowError | IntegrityError

subsection \<open>Floats\<close>

datatype pyfloat = Fin real | PInf | NInf | NaN

definition isnan :: "pyfloat \<Rightarrow> bool" where
  "isnan x = (x = NaN)"

text \<open>
  The limits of binary64 under round-to-nearest: a result of magnitude at least
  \<open>2\<^sup>1\<^sup>0\<^sup>2\<^sup>4 - 2\<^sup>9\<^sup>7\<^sup>0\<close> overflows, and one of magnitude at most \<open>2\<^sup>-\<^sup>1\<^sup>0\<^sup>7\<^sup>5\<close> becomes zero.
\<close>

definition overflow_at :: real where
  "overflow_at = 2 ^ 1024 - 2 ^ 970"

definition underflow_at :: real where
  "underflow_at = 1 / 2 ^ 1075"

definition fround :: "real \<Rightarrow> pyfloat" where
  "fround x =
     (if overflow_at \<le> x then PInf
      else if x \<le> - overflow_at then NInf
      else if \<bar>x\<bar> \<le> underflow_at then Fin 0
      else Fin x)"

text \<open>The comparisons \<open><\<close> and \<open><=\<close>: false whenever an operand is NaN.\<close>

fun flt :: "pyfloat \<Rightarrow> pyfloat \<Rightarrow> bool" where
  "flt NaN y = False"
| "flt x NaN = False"
| "flt (Fin x) (Fin y) = (x < y)"
| "flt x NInf = False"
| "flt PInf y = False"
| "flt NInf y = True"
| "flt x PInf = True"

fun fle :: "pyfloat \<Rightarrow> pyfloat \<Rightarrow> bool" where
  "fle NaN y = False"
| "fle x NaN = False"
| "fle (Fin x) (Fin y) = (x \<le> y)"
| "fle NInf y = True"
| "fle x PInf = True"
| "fle x y = False"

text \<open>
  \<open>x ** 2\<close>: \<open>float.__pow__\<close> raises \<open>OverflowError\<close> where the result is out of range and
  returns \<open>0.0\<close> where it underflows; an infinity squares to \<open>inf\<close>, NaN to NaN.
\<close>

fun fpow2 :: "pyfloat \<Rightarrow> py_error + pyfloat" where
  "fpow2 (Fin x) =
     (if overflow_at \<le> x ^ 2 then Inl OverflowError
      else Inr (if x ^ 2 \<le> underflow_at then Fin 0 else Fin (x ^ 2)))"
| "fpow2 PInf = Inr PInf"
| "fpow2 NInf = Inr PInf"
| "fpow2 NaN = Inr NaN"

text \<open>
  \<open>x / y\<close>: \<open>float.__truediv__\<close> raises \<open>ZeroDivisionError\<close> for a zero divisor, whatever
  the dividend, and follows IEEE 754 otherwise, an overflow giving an infinity.
\<close>

fun fdiv :: "pyfloat \<Rightarrow> pyfloat \<Rightarrow> py_error + pyfloat" where
  "fdiv x (Fin y) =
     (if y = 0 then Inl ZeroDivisionError
      else Inr (case x of
                  Fin a \<Rightarrow> fround (a / y)
                | PInf \<Rightarrow> (if 0 < y then PInf else NInf)
                | NInf \<Rightarrow> (if 0 < y then NInf else PInf)
                | NaN \<Rightarrow> NaN))"
| "fdiv (Fin a) PInf = Inr (Fin 0)"
| "fdiv (Fin a) NInf = Inr (Fin 0)"
| "fdiv x y = Inr NaN"

subsection \<open>\<open>str.strip()\<close>\<close>

text \<open>The code points below 256 for which \<open>str.isspace\<close> holds.\<close>

definition py_isspace :: "char \<Rightarrow> bool" where
  "py_isspace c =
     (let n = (of_char c :: nat)
      in (9 \<le> n \<and> n \<le> 13) \<or> (28 \<le> n \<and> n \<le> 32) \<or> n = 133 \<or> n = 160)"

definition strip :: "string \<Rightarrow> string" where
  "strip s = rev (dropWhile py_isspace (rev (dropWhile py_isspace s)))"

subsection \<open>BMI logic\<close>

text \<open>
  \<^verbatim>\<open>
  def calculate_bmi(weight_kg, height_m):
      if height_m <= 0:
          raise ValueError("Height must be positive and non-zero.")
      bmi = weight_kg / (height_m ** 2)
      return bmi
  \<close>
\<close>

definition calculate_bmi :: "pyfloat \<Rightarrow> pyfloat \<Rightarrow> py_error + pyfloat" where
  "calculate_bmi weight_kg height_m =
     (if fle height_m (Fin 0) then Inl (ValueError ''Height must be positive and non-zero.'')
      else (case fpow2 height_m of
              Inl e \<Rightarrow> Inl e
            | Inr sq \<Rightarrow> fdiv weight_kg sq))"

text \<open>
  \<^verbatim>\<open>
  def bmi_category(bmi):
      if bmi < 18.5: return "Underweight"
      elif bmi < 25.0: return "Normal"
      elif bmi < 30.0: return "Overweight"
      else: return "Obese"
  \<close>
\<close>

definition bmi_category :: "pyfloat \<Rightarrow> string" where
  "bmi_category b =
     (if flt b (Fin 18.5) then ''Underweight''
      else if flt b (Fin 25.0) then ''Normal''
      else if flt b (Fin 30.0) then ''Overweight''
      else ''Obese'')"

subsection \<open>The database\<close>

text \<open>
  The two tables of \<open>init_db\<close>, each a list of rows in insertion order. Both primary keys are
  \<open>INTEGER PRIMARY KEY AUTOINCREMENT\<close>: SQLite keeps, per table, the largest key it ever
  handed out (\<open>sqlite_sequence\<close>) and gives a new row one more than the larger of that and
  the largest key in the table. The 64-bit limit of the keys is not modelled. The three
  \<open>REAL NOT NULL\<close> columns hold floats; SQLite binds NaN as \<open>NULL\<close>, which these columns
  refuse.
\<close>

record user_row =
  usr_id :: int
  usr_name :: string

record record_row =
  rec_id :: int
  rec_user_id :: int
  rec_date :: string
  rec_weight_kg :: pyfloat
  rec_height_m :: pyfloat
  rec_bmi :: pyfloat
  rec_category :: string

record db =
  users :: "user_row list"
  records :: "record_row list"
  users_seq :: int
  records_seq :: int

definition init_db :: db where
  "init_db = \<lparr>users = [], records = [], users_seq = 0, records_seq = 0\<rparr>"

definition next_rowid :: "int \<Rightarrow> int list \<Rightarrow> int" where
  "next_rowid seq ids = fold max ids seq + 1"

text \<open>
  \<^verbatim>\<open>
  def get_or_create_user(name):
      name = name.strip()
      if not name: return None
      c.execute("SELECT id FROM users WHERE name = ?", (name,))
      row = c.fetchone()
      if row: user_id = row[0]
      else:
          c.execute("INSERT INTO users (name) VALUES (?)", (name,))
          user_id = c.lastrowid
          conn.commit()
      return user_id
  \<close>
\<close>

definition get_or_create_user :: "db \<Rightarrow> string \<Rightarrow> int option \<times> db" where
  "get_or_create_user d name0 =
     (let name = strip name0
      in if name = [] then (None, d)
         else (case find (\<lambda>u. usr_name u = name) (users d) of
                 Some row \<Rightarrow> (Some (usr_id row), d)
               | None \<Rightarrow>
                   (let user_id = next_rowid (users_seq d) (map usr_id (users d))
                    in (Some user_id,
                        d\<lparr>users := users d @ [\<lparr>usr_id = user_id, usr_name = name\<rparr>],
                          users_seq := user_id\<rparr>))))"

text \<open>
  \<^verbatim>\<open>
  def save_record(user_id, weight, height, bmi, category):
      now = datetime.now().isoformat(timespec='seconds')
      c.execute("INSERT INTO records (user_id, date, weight_kg, height_m, bmi, category)
                 VALUES (?, ?, ?, ?, ?, ?)", (user_id, now, weight, height, bmi, category))
      conn.commit()
  \<close>
  The clock's reading \<open>now\<close> is a parameter. A NaN among the three floats reaches the
  table as \<open>NULL\<close>: the \<open>INSERT\<close> fails with \<open>sqlite3.IntegrityError\<close>, which
  \<open>save_record\<close> lets through, and nothing is written.
\<close>

definition save_record ::
  "db \<Rightarrow> string \<Rightarrow> int \<Rightarrow> pyfloat \<Rightarrow> pyfloat \<Rightarrow> pyfloat \<Rightarrow> string \<Rightarrow> py_error + db" where
  "save_record d now user_id weight height bmi category =
     (if isnan weight \<or> isnan height \<or> isnan bmi then Inl IntegrityError
      else
        (let new_id = next_rowid (records_seq d) (map rec_id (records d))
         in Inr (d\<lparr>records := records d @
                    [\<lparr>rec_id = new_id, rec_user_id = user_id, rec_date = now,
                      rec_weight_kg = weight, rec_height_m = height, rec_bmi = bmi,
                      rec_category = category\<rparr>],
                  records_seq := new_id\<rparr>)))"

text \<open>
  \<open>SELECT id, name FROM users ORDER BY name COLLATE NOCASE\<close>: \<open>NOCASE\<close> folds the 26
  upper-case ASCII letters before it compares. Rows that compare equal keep their table order.
\<close>

definition ascii_lower :: "char \<Rightarrow> char" where
  "ascii_lower c =
     (let n = (of_char c :: nat) in if 65 \<le> n \<and> n \<le> 90 then char_of (n + 32) else c)"

definition nocase :: "string \<Rightarrow> string" where
  "nocase s = map ascii_lower s"

definition fetch_users :: "db \<Rightarrow> user_row list" where
  "fetch_users d = sort_key (\<lambda>u. nocase (usr_name u)) (users d)"

text \<open>
  \<open>SELECT id, date, weight_kg, height_m, bmi, category FROM records WHERE user_id = ?
  ORDER BY date\<close>: the \<open>date\<close> column is \<open>TEXT\<close>, compared code point by code point.
  Rows with equal dates keep their table order.
\<close>

definition fetch_records_for_user :: "db \<Rightarrow> int \<Rightarrow> record_row list" where
  "fetch_records_for_user d user_id =
     sort_key rec_date (filter (\<lambda>r. rec_user_id r = user_id) (records d))"

text \<open>
  \<open>fetch_all_records_for_user_as_dicts\<close> turns each row into a dict with the keys
  \<open>id, date, weight_kg, height_m, bmi, category\<close>, in this order. A dict is an association
  list here, since the order of its keys decides the columns of a data frame.
\<close>

datatype cell = CStr string | CInt int | CReal pyfloat

definition fetch_all_records_for_user_as_dicts :: "db \<Rightarrow> int \<Rightarrow> (string \<times> cell) list list" where
  "fetch_all_records_for_user_as_dicts d user_id =
     map (\<lambda>r. [(''id'', CInt (rec_id r)),
                (''date'', CStr (rec_date r)),
                (''weight_kg'', CReal (rec_weight_kg r)),
                (''height_m'', CReal (rec_height_m r)),
                (''bmi'', CReal (rec_bmi r)),
                (''category'', CStr (rec_category r))])
         (fetch_records_for_user d user_id)"

subsection \<open>The save action\<close>

text \<open>
  \<^verbatim>\<open>
  def on_calculate_and_save(self):
      name = self.name_var.get().strip()
      if not name:
          messagebox.showwarning("Missing name", ...); return
      try:
          weight = float(self.weight_var.get())
          height = float(self.height_var.get())
          bmi = calculate_bmi(weight, height)
          cat = bmi_category(bmi)
      except Exception as e:
          messagebox.showerror("Input error", ...); return
      user_id = get_or_create_user(name)
      if user_id is None:
          messagebox.showerror("User error", ...); return
      save_record(user_id, weight, height, bmi, cat)
      ...
  \<close>
  \<open>to_float\<close> stands for the builtin \<open>float\<close>, with \<open>None\<close> where it raises. The
  \<open>try\<close> block catches every exception of the four lines in it. \<open>save_record\<close> is called
  outside of it: an exception it raises leaves the handler, after \<open>get_or_create_user\<close> has
  committed. The outcome records which dialog the handler shows, or the exception that
  leaves it; the widgets it repaints afterwards read the database and do not write it.
\<close>

datatype outcome =
  MissingName | InputError | UserError | Raised py_error | Saved string pyfloat string

definition on_calculate_and_save ::
  "(string \<Rightarrow> pyfloat option) \<Rightarrow> string \<Rightarrow> db \<Rightarrow> string \<Rightarrow> string \<Rightarrow> string \<Rightarrow> outcome \<times> db" where
  "on_calculate_and_save to_float now d name_var weight_var height_var =
     (let name = strip name_var
      in if name = [] then (MissingName, d)
         else (case to_float weight_var of
                 None \<Rightarrow> (InputError, d)
               | Some weight \<Rightarrow>
                  (case to_float height_var of
                     None \<Rightarrow> (InputError, d)
                   | Some height \<Rightarrow>
                      (case calculate_bmi weight height of
                         Inl e \<Rightarrow> (InputError, d)
                       | Inr bmi \<Rightarrow>
                          (let cat = bmi_category bmi
                           in (case get_or_create_user d name of
                                 (None, d1) \<Rightarrow> (UserError, d1)
                               | (Some user_id, d1) \<Rightarrow>
                                   (case save_record d1 now user_id weight height bmi cat of
                                      Inl e \<Rightarrow> (Raised e, d1)
                                    | Inr d2 \<Rightarrow> (Saved name bmi cat, d2))))))))"

subsection \<open>Two-decimal formatting\<close>

text \<open>
  \<open>f"{x:.2f}"\<close> rounds to the nearest hundredth, a tie to the even neighbour, and keeps the
  sign of a negative argument; the infinities and NaN print as \<open>inf\<close>, \<open>-inf\<close> and
  \<open>nan\<close>.
\<close>

definition digit_char :: "nat \<Rightarrow> char" where
  "digit_char n = ''0123456789'' ! (n mod 10)"

fun str_nat :: "nat \<Rightarrow> string" where
  "str_nat n = (if n < 10 then [digit_char n] else str_nat (n div 10) @ [digit_char n])"

declare str_nat.simps [simp del]

definition round_half_even :: "real \<Rightarrow> int" where
  "round_half_even x =
     (let f = \<lfloor>x\<rfloor>; r = x - of_int f
      in if r < 1 / 2 then f
         else if 1 / 2 < r then f + 1
         else if even f then f else f + 1)"

fun fmt_2f :: "pyfloat \<Rightarrow> string" where
  "fmt_2f (Fin x) =
     (let q = nat (round_half_even (\<bar>x\<bar> * 100))
      in (if x < 0 then ''-'' else '''') @ str_nat (q div 100) @ ''.'' @
         [digit_char (q div 10), digit_char q])"
| "fmt_2f PInf = ''inf''"
| "fmt_2f NInf = ''-inf''"
| "fmt_2f NaN = ''nan''"

declare fmt_2f.simps [simp del]

subsection \<open>The history table and its statistics\<close>

text \<open>
  \<open>statistics.mean\<close>, \<open>min\<close> and \<open>max\<close> raise on an empty list; \<open>None\<close> is that case.
  \<open>statistics.mean\<close> adds the finite values as exact fractions; where the data holds an
  infinity or NaN it adds those alone, as floats, and the finite values do not count.
  \<open>min\<close> and \<open>max\<close> keep the first item and replace it by each later item that compares
  smaller or larger.
\<close>

fun fadd_special :: "pyfloat \<Rightarrow> pyfloat \<Rightarrow> pyfloat" where
  "fadd_special PInf PInf = PInf"
| "fadd_special NInf NInf = NInf"
| "fadd_special x y = NaN"

fun fin_val :: "pyfloat \<Rightarrow> real" where
  "fin_val (Fin x) = x"
| "fin_val x = 0"

fun is_fin :: "pyfloat \<Rightarrow> bool" where
  "is_fin (Fin x) = True"
| "is_fin x = False"

definition mean :: "pyfloat list \<Rightarrow> pyfloat option" where
  "mean xs =
     (if xs = [] then None
      else (case filter (\<lambda>x. \<not> is_fin x) xs of
              [] \<Rightarrow> Some (Fin (sum_list (map fin_val xs) / real (length xs)))
            | s # ss \<Rightarrow> Some (fold (\<lambda>x acc. fadd_special acc x) ss s)))"

definition py_min :: "pyfloat list \<Rightarrow> pyfloat option" where
  "py_min xs =
     (case xs of [] \<Rightarrow> None | x # r \<Rightarrow> Some (fold (\<lambda>y m. if flt y m then y else m) r x))"

definition py_max :: "pyfloat list \<Rightarrow> pyfloat option" where
  "py_max xs =
     (case xs of [] \<Rightarrow> None | x # r \<Rightarrow> Some (fold (\<lambda>y m. if flt m y then y else m) r x))"

record history_view =
  tree :: "string list list"
  stat_mean :: string
  stat_min :: string
  stat_max :: string

text \<open>
  \<^verbatim>\<open>
  def populate_history_for_user(self, user_id):
      self.clear_history_table()
      records = fetch_records_for_user(user_id)
      for rec in records:
          _id, date, weight, height, bmi, cat = rec
          self.tree.insert('', tk.END,
              values=(date, f"{weight:.2f}", f"{height:.2f}", f"{bmi:.2f}", cat))
      bmis = [r[4] for r in records]
      if bmis:
          mean_b = statistics.mean(bmis); min_b = min(bmis); max_b = max(bmis)
          self.stat_mean.set(f"Mean BMI: {mean_b:.2f}")
          self.stat_min.set(f"Min BMI: {min_b:.2f}")
          self.stat_max.set(f"Max BMI: {max_b:.2f}")
      else:
          self.stat_mean.set("Mean BMI: N/A")
          self.stat_min.set("Min BMI: N/A")
          self.stat_max.set("Max BMI: N/A")
  \<close>
  The result is \<open>None\<close> where one of the three statistics raises.
\<close>

definition populate_history_for_user :: "db \<Rightarrow> int \<Rightarrow> history_view option" where
  "populate_history_for_user d user_id =
     (let recs = fetch_records_for_user d user_id;
          rows = map (\<lambda>r. [rec_date r, fmt_2f (rec_weight_kg r), fmt_2f (rec_height_m r),
                            fmt_2f (rec_bmi r), rec_category r]) recs;
          bmis = map rec_bmi recs
      in if bmis \<noteq> [] then
           (case (mean bmis, py_min bmis, py_max bmis) of
              (Some mean_b, Some min_b, Some max_b) \<Rightarrow>
                Some \<lparr>tree = rows,
                      stat_mean = ''Mean BMI: '' @ fmt_2f mean_b,
                      stat_min = ''Min BMI: '' @ fmt_2f min_b,
                      stat_max = ''Max BMI: '' @ fmt_2f max_b\<rparr>
            | _ \<Rightarrow> None)
         else
           Some \<lparr>tree = rows,
                 stat_mean = ''Mean BMI: N/A'',
                 stat_min = ''Min BMI: N/A'',
                 stat_max = ''Max BMI: N/A''\<rparr>)"

subsection \<open>CSV export\<close>

text \<open>
  A CSV file is its rows of cells, the header first. How \<open>csv.writer\<close> and pandas print a
  float as text is binary64's shortest round-trip representation and is not modelled: a
  number cell holds the number that is written.

  \<open>pd.DataFrame(recs).to_csv(path, index=False)\<close> on a list of dicts with the same keys:
  the columns are the keys in the order of the dicts, the header row names them, and each
  dict gives one row.
\<close>

fun to_csv :: "(string \<times> cell) list list \<Rightarrow> cell list list" where
  "to_csv [] = []"
| "to_csv (r # rs) = map (\<lambda>kv. CStr (fst kv)) r # map (map snd) (r # rs)"

datatype export_result =
  NoUserSelected | UserNotFound | NoRecords | Cancelled | ExportError
  | Exported string "cell list list"

text \<open>
  \<^verbatim>\<open>
  def export_history_csv(self):
      name = self.user_combo_var.get().strip()
      if not name: ... return
      users = fetch_users(); user_id = None
      for u in users:
          if u[1] == name: user_id = u[0]; break
      if user_id is None: ... return
      recs = fetch_all_records_for_user_as_dicts(user_id)
      if not recs: ... return
      path = filedialog.asksaveasfilename(...)
      if not path: return
      try:
          if PANDAS_AVAILABLE:
              df = pd.DataFrame(recs); df.to_csv(path, index=False)
          else:
              with open(path, "w", newline='', encoding='utf-8') as f:
                  writer = csv.writer(f)
                  writer.writerow(["date", "weight_kg", "height_m", "bmi", "category"])
                  for r in recs:
                      writer.writerow([r["date"], r["weight_kg"], r["height_m"],
                                       r["bmi"], r["category"]])
          messagebox.showinfo("Exported", ...)
      except Exception as e:
          messagebox.showerror("Export error", ...)
  \<close>
  \<open>pandas_available\<close> is the module flag, \<open>path\<close> the answer of the file dialog (empty when
  the user cancels). A missing dict key raises \<open>KeyError\<close> inside the \<open>try\<close>. The file
  system is taken to accept the write.
\<close>

definition export_history_csv :: "bool \<Rightarrow> db \<Rightarrow> string \<Rightarrow> string \<Rightarrow> export_result" where
  "export_history_csv pandas_available d user_combo_var path =
     (let name = strip user_combo_var
      in if name = [] then NoUserSelected
         else (case find (\<lambda>u. usr_name u = name) (fetch_users d) of
                 None \<Rightarrow> UserNotFound
               | Some u \<Rightarrow>
                  (let recs = fetch_all_records_for_user_as_dicts d (usr_id u)
                   in if recs = [] then NoRecords
                      else if path = [] then Cancelled
                      else if pandas_available then Exported path (to_csv recs)
                      else
                        (let keys = [''date'', ''weight_kg'', ''height_m'', ''bmi'', ''category'']
                         in case those (map (\<lambda>r. those (map (map_of r) keys)) recs) of
                              None \<Rightarrow> ExportError
                            | Some rows \<Rightarrow> Exported path (map CStr keys # rows)))))"

subsection \<open>Float literals\<close>

text \<open>
  The builtin \<open>float\<close> on a string, without the underscores it allows between digits:
  surrounding whitespace, an optional sign, and then either \<open>inf\<close>, \<open>infinity\<close> or
  \<open>nan\<close> in any case, or digits with an optional point (a digit on at least one side of
  it) and an optional exponent. A literal beyond the range reads as an infinity, one below
  it as zero. It is used for concrete inputs only; the theorems about the save action hold
  for every reading of \<open>float\<close>.
\<close>

definition is_digit :: "char \<Rightarrow> bool" where
  "is_digit c = (let n = (of_char c :: nat) in 48 \<le> n \<and> n \<le> 57)"

definition digits_val :: "string \<Rightarrow> nat" where
  "digits_val s = foldl (\<lambda>a c. 10 * a + (of_char c - 48)) 0 s"

text \<open>The exponent part: nothing, or \<open>e\<close>, an optional sign and at least one digit.\<close>

definition exponent_val :: "string \<Rightarrow> int option" where
  "exponent_val s =
     (if s = [] then Some 0
      else if ascii_lower (hd s) \<noteq> CHR ''e'' then None
      else
        (let t = tl s;
             ds = (if t \<noteq> [] \<and> (hd t = CHR ''-'' \<or> hd t = CHR ''+'') then tl t else t)
         in if ds = [] \<or> \<not> list_all is_digit ds then None
            else if t \<noteq> [] \<and> hd t = CHR ''-'' then Some (- int (digits_val ds))
            else Some (int (digits_val ds))))"

definition float_literal :: "string \<Rightarrow> pyfloat option" where
  "float_literal s0 =
     (let s = strip s0;
          neg = (s \<noteq> [] \<and> hd s = CHR ''-'');
          body = (if s \<noteq> [] \<and> (hd s = CHR ''-'' \<or> hd s = CHR ''+'') then tl s else s);
          word = map ascii_lower body
      in if word = ''inf'' \<or> word = ''infinity'' then Some (if neg then NInf else PInf)
         else if word = ''nan'' then Some NaN
         else
           (let ip = takeWhile is_digit body;
                r1 = dropWhile is_digit body;
                pt = (r1 \<noteq> [] \<and> hd r1 = CHR ''.'');
                fp = (if pt then takeWhile is_digit (tl r1) else []);
                r2 = (if pt then dropWhile is_digit (tl r1) else r1)
            in if ip = [] \<and> fp = [] then None
               else (case exponent_val r2 of
                       None \<Rightarrow> None
                     | Some e \<Rightarrow>
                         (let m = real (digits_val ip) + real (digits_val fp) / 10 ^ length fp;
                              v = (if 0 \<le> e then m * 10 ^ nat e else m / 10 ^ nat (- e))
                          in Some (fround (if neg then - v else v))))))"

section \<open>Auxiliary facts\<close>

subsection \<open>Stripping\<close>

lemma last_dropWhile_nonempty:
  "dropWhile P xs \<noteq> [] \<Longrightarrow> last (dropWhile P xs) = last xs"
  by (induction xs) (auto split: if_splits)

lemma strip_Nil: "strip [] = []"
  by (simp add: strip_def)

lemma strip_fixed:
  assumes "s \<noteq> []" "\<not> py_isspace (hd s)" "\<not> py_isspace (last s)"
  shows "strip s = s"
proof -
  have "dropWhile py_isspace s = s"
    using assms by (simp add: dropWhile_eq_self_iff)
  moreover have "dropWhile py_isspace (rev s) = rev s"
    using assms by (simp add: dropWhile_eq_self_iff hd_rev)
  ultimately show ?thesis by (simp add: strip_def)
qed

lemma strip_ends:
  assumes "strip s \<noteq> []"
  shows "\<not> py_isspace (hd (strip s)) \<and> \<not> py_isspace (last (strip s))"
proof -
  define t where "t = dropWhile py_isspace s"
  define u where "u = dropWhile py_isspace (rev t)"
  have s: "strip s = rev u" by (simp add: strip_def t_def u_def)
  with assms have u: "u \<noteq> []" by simp
  then have t: "t \<noteq> []" by (auto simp: u_def)
  have "\<not> py_isspace (hd u)" using u unfolding u_def by (rule hd_dropWhile)
  moreover have "last u = last (rev t)"
    using u unfolding u_def by (rule last_dropWhile_nonempty)
  moreover have "\<not> py_isspace (hd t)" using t unfolding t_def by (rule hd_dropWhile)
  ultimately show ?thesis using u t by (simp add: s hd_rev last_rev)
qed

lemma strip_idem: "strip (strip s) = strip s"
proof (cases "strip s = []")
  case True
  then show ?thesis by (simp add: strip_Nil)
next
  case False
  with strip_ends [OF False] show ?thesis by (simp add: strip_fixed)
qed

lemma strip_all_space:
  assumes "\<forall>c\<in>set s. py_isspace c"
  shows "strip s = []"
  using assms by (auto simp add: strip_def dest: set_dropWhileD)

subsection \<open>The range of the floats\<close>

lemma underflow_at_pos: "0 < underflow_at"
  by (simp add: underflow_at_def)



lemma calculate_bmi_overflow:
  assumes "0 < h" "overflow_at \<le> h ^ 2"
  shows "calculate_bmi w (Fin h) = Inl OverflowError"
  using assms by (simp add: calculate_bmi_def)

lemma calculate_bmi_in_range:
  assumes "0 < h" "underflow_at < h ^ 2" "h ^ 2 < overflow_at"
  shows "calculate_bmi w (Fin h) = fdiv w (Fin (h ^ 2))"
  using assms by (simp add: calculate_bmi_def)

lemma calculate_bmi_Inr:
  assumes "calculate_bmi w h = Inr b"
  shows "\<not> fle h (Fin 0) \<and> (\<exists>sq. fpow2 h = Inr sq \<and> fdiv w sq = Inr b)"
  using assms by (simp add: calculate_bmi_def split: if_splits sum.splits)

lemma calculate_bmi_not_nan:
  assumes "calculate_bmi w h = Inr b" "\<not> isnan b"
  shows "\<not> isnan w \<and> \<not> isnan h \<and> flt (Fin 0) h"
  using assms
  by (cases h; cases w) (auto simp add: calculate_bmi_def isnan_def split: if_splits)

lemma calculate_bmi_finite:
  assumes "calculate_bmi (Fin w) (Fin h) = Inr b"
  shows "b = fround (w / h ^ 2)"
  using assms by (auto simp add: calculate_bmi_def split: if_splits)

lemma calculate_bmi_ValueError:
  "(calculate_bmi w h = Inl (ValueError m)) =
     (fle h (Fin 0) \<and> m = ''Height must be positive and non-zero.'')"
  by (cases h; cases w) (auto simp add: calculate_bmi_def split: if_splits)

lemma bmi_category_cases:
  assumes "\<not> isnan b"
  shows "(bmi_category b = ''Underweight'') = flt b (Fin 18.5) \<and>
         (bmi_category b = ''Normal'') = (fle (Fin 18.5) b \<and> flt b (Fin 25.0)) \<and>
         (bmi_category b = ''Overweight'') = (fle (Fin 25.0) b \<and> flt b (Fin 30.0)) \<and>
         (bmi_category b = ''Obese'') = fle (Fin 30.0) b"
  using assms by (cases b) (auto simp add: bmi_category_def isnan_def)

subsection \<open>Looking a user up\<close>



lemma get_or_create_user_records:
  "records (snd (get_or_create_user d n)) = records d \<and>
   records_seq (snd (get_or_create_user d n)) = records_seq d"
  by (simp add: get_or_create_user_def Let_def split: option.splits)



lemma get_or_create_user_Some:
  "strip n \<noteq> [] \<Longrightarrow> \<exists>i. fst (get_or_create_user d n) = Some i"
  by (simp add: get_or_create_user_def Let_def split: option.splits)

subsection \<open>Inserting a record\<close>

lemma save_record_Inr:
  assumes "\<not> isnan w" "\<not> isnan h" "\<not> isnan b"
  shows "save_record d now i w h b c =
     Inr (d\<lparr>records := records d @
               [\<lparr>rec_id = next_rowid (records_seq d) (map rec_id (records d)),
                 rec_user_id = i, rec_date = now, rec_weight_kg = w, rec_height_m = h,
                 rec_bmi = b, rec_category = c\<rparr>],
             records_seq := next_rowid (records_seq d) (map rec_id (records d))\<rparr>)"
  using assms by (simp add: save_record_def Let_def)

lemma save_record_Inl:
  assumes "isnan w \<or> isnan h \<or> isnan b"
  shows "save_record d now i w h b c = Inl IntegrityError"
  using assms by (auto simp add: save_record_def)

subsection \<open>The three ways the save action ends\<close>

lemma on_calculate_and_save_accepted:
  assumes "strip name_var \<noteq> []" "to_float weight_var = Some w" "to_float height_var = Some h"
    and "calculate_bmi w h = Inr b" "\<not> isnan b"
  shows "on_calculate_and_save to_float now d name_var weight_var height_var =
     (Saved (strip name_var) b (bmi_category b),
      (snd (get_or_create_user d (strip name_var)))
        \<lparr>records := records d @
           [\<lparr>rec_id = next_rowid (records_seq d) (map rec_id (records d)),
             rec_user_id = the (fst (get_or_create_user d (strip name_var))),
             rec_date = now, rec_weight_kg = w, rec_height_m = h, rec_bmi = b,
             rec_category = bmi_category b\<rparr>],
         records_seq := next_rowid (records_seq d) (map rec_id (records d))\<rparr>)"
proof (cases "get_or_create_user d (strip name_var)")
  case (Pair r d1)
  from get_or_create_user_Some [of "strip name_var" d] assms(1) Pair
  obtain i where i: "r = Some i" by (auto simp: strip_idem)
  from get_or_create_user_records [of d "strip name_var"] Pair
  have d1: "records d1 = records d" "records_seq d1 = records_seq d" by simp_all
  from calculate_bmi_not_nan [OF assms(4,5)]
  have "save_record d1 now i w h b (bmi_category b) =
     Inr (d1\<lparr>records := records d1 @
               [\<lparr>rec_id = next_rowid (records_seq d1) (map rec_id (records d1)),
                 rec_user_id = i, rec_date = now, rec_weight_kg = w, rec_height_m = h,
                 rec_bmi = b, rec_category = bmi_category b\<rparr>],
             records_seq := next_rowid (records_seq d1) (map rec_id (records d1))\<rparr>)"
    using assms(5) by (intro save_record_Inr) simp_all
  with Pair i d1 assms show ?thesis
    by (simp add: on_calculate_and_save_def Let_def)
qed

lemma on_calculate_and_save_nan:
  assumes "strip name_var \<noteq> []" "to_float weight_var = Some w" "to_float height_var = Some h"
    and "calculate_bmi w h = Inr b" "isnan b"
  shows "on_calculate_and_save to_float now d name_var weight_var height_var =
     (Raised IntegrityError, snd (get_or_create_user d (strip name_var)))"
proof (cases "get_or_create_user d (strip name_var)")
  case (Pair r d1)
  from get_or_create_user_Some [of "strip name_var" d] assms(1) Pair
  obtain i where i: "r = Some i" by (auto simp: strip_idem)
  have "save_record d1 now i w h b (bmi_category b) = Inl IntegrityError"
    using assms(5) by (intro save_record_Inl) simp
  with Pair i assms show ?thesis
    by (simp add: on_calculate_and_save_def Let_def)
qed

lemma on_calculate_and_save_rejected:
  assumes "strip name_var = [] \<or> to_float weight_var = None \<or> to_float height_var = None
           \<or> (\<exists>w h e. to_float weight_var = Some w \<and> to_float height_var = Some h \<and>
                  calculate_bmi w h = Inl e)"
  shows "on_calculate_and_save to_float now d name_var weight_var height_var \<in>
           {(MissingName, d), (InputError, d)}"
  using assms
  by (auto simp add: on_calculate_and_save_def Let_def split: option.splits)

lemma save_action_inputs:
  obtains
    (rejected) "strip name_var = [] \<or> to_float weight_var = None \<or> to_float height_var = None
           \<or> (\<exists>w h e. to_float weight_var = Some w \<and> to_float height_var = Some h \<and>
                  calculate_bmi w h = Inl e)"
  | (nan) w h b where "strip name_var \<noteq> []" "to_float weight_var = Some w"
      "to_float height_var = Some h" "calculate_bmi w h = Inr b" "isnan b"
  | (accepted) w h b where "strip name_var \<noteq> []" "to_float weight_var = Some w"
      "to_float height_var = Some h" "calculate_bmi w h = Inr b" "\<not> isnan b"
proof (cases "strip name_var = [] \<or> to_float weight_var = None \<or> to_float height_var = None")
  case True
  then show ?thesis by (intro rejected) blast
next
  case False
  then obtain w h where wh: "strip name_var \<noteq> []" "to_float weight_var = Some w"
      "to_float height_var = Some h" by auto
  show ?thesis
  proof (cases "calculate_bmi w h")
    case (Inl e)
    with wh show ?thesis by (intro rejected) blast
  next
    case (Inr b)
    with wh show ?thesis by (cases "isnan b") (auto intro: nan accepted)
  qed
qed

subsection \<open>Evaluating concrete runs\<close>

lemmas run_defs = on_calculate_and_save_def float_literal_def strip_def py_isspace_def
  is_digit_def digits_val_def exponent_val_def ascii_lower_def fround_def overflow_at_def
  underflow_at_def calculate_bmi_def bmi_category_def get_or_create_user_def save_record_def
  isnan_def init_db_def next_rowid_def Let_def power2_eq_square

subsection \<open>Formatting and statistics at the values of the specification\<close>

lemma fmt_2f_mean: "fmt_2f (Fin (70 / 3)) = ''23.33''"
  by code_simp

lemma fmt_2f_min: "fmt_2f (Fin 18) = ''18.00''"
  by code_simp

lemma fmt_2f_max: "fmt_2f (Fin 30) = ''30.00''"
  by code_simp

lemma stats_18_22_30:
  "mean [Fin 18, Fin 22, Fin 30] = Some (Fin (70 / 3)) \<and>
   py_min [Fin 18, Fin 22, Fin 30] = Some (Fin 18) \<and>
   py_max [Fin 18, Fin 22, Fin 30] = Some (Fin 30)"
  by (simp add: mean_def py_min_def py_max_def)

subsection \<open>Writing rows\<close>

lemma those_map_Some: "those (map (\<lambda>x. Some (f x)) xs) = Some (map f xs)"
  by (induction xs) simp_all

section \<open>Properties\<close>

subsection \<open>BMI computation\<close>




text \<open>
  C2. For every bmi value, the category is "Underweight" below 18.5, "Normal" from 18.5 up
  to but excluding 25.0, "Overweight" from 25.0 up to but excluding 30.0, and "Obese"
  otherwise; each band includes its lower boundary, so 18.5 is "Normal", 25.0 is
  "Overweight" and 30.0 is "Obese". The first four lines state it for every float, with the
  comparisons of the floats, the next four for every finite value.
\<close>

theorem bmi_category_bands:
  "(flt b (Fin 18.5) \<longrightarrow> bmi_category b = ''Underweight'') \<and>
   (fle (Fin 18.5) b \<and> flt b (Fin 25.0) \<longrightarrow> bmi_category b = ''Normal'') \<and>
   (fle (Fin 25.0) b \<and> flt b (Fin 30.0) \<longrightarrow> bmi_category b = ''Overweight'') \<and>
   (\<not> flt b (Fin 18.5) \<and> \<not> (fle (Fin 18.5) b \<and> flt b (Fin 25.0)) \<and>
    \<not> (fle (Fin 25.0) b \<and> flt b (Fin 30.0)) \<longrightarrow> bmi_category b = ''Obese'') \<and>
   (x < 18.5 \<longrightarrow> bmi_category (Fin x) = ''Underweight'') \<and>
   (18.5 \<le> x \<and> x < 25.0 \<longrightarrow> bmi_category (Fin x) = ''Normal'') \<and>
   (25.0 \<le> x \<and> x < 30.0 \<longrightarrow> bmi_category (Fin x) = ''Overweight'') \<and>
   (\<not> x < 18.5 \<and> \<not> (18.5 \<le> x \<and> x < 25.0) \<and> \<not> (25.0 \<le> x \<and> x < 30.0)
      \<longrightarrow> bmi_category (Fin x) = ''Obese'') \<and>
   bmi_category (Fin 18.5) = ''Normal'' \<and>
   bmi_category (Fin 25.0) = ''Overweight'' \<and>
   bmi_category (Fin 30.0) = ''Obese''"
  by (cases b) (auto simp add: bmi_category_def)

theorem bmi_category_bands_witness:
  "((18.49::real) < 18.5 \<and> flt (Fin 18.49) (Fin 18.5) \<and>
      bmi_category (Fin 18.49) = ''Underweight'') \<and>
   ((18.5::real) \<le> 24.99 \<and> (24.99::real) < 25.0 \<and> fle (Fin 18.5) (Fin 24.99) \<and>
      flt (Fin 24.99) (Fin 25.0) \<and> bmi_category (Fin 24.99) = ''Normal'') \<and>
   ((25.0::real) \<le> 29.99 \<and> (29.99::real) < 30.0 \<and> fle (Fin 25.0) (Fin 29.99) \<and>
      flt (Fin 29.99) (Fin 30.0) \<and> bmi_category (Fin 29.99) = ''Overweight'') \<and>
   (\<not> (41::real) < 30.0 \<and> bmi_category (Fin 41) = ''Obese'') \<and>
   (\<not> flt NaN (Fin 30.0) \<and> bmi_category NaN = ''Obese'')"
  using bmi_category_bands [of "Fin 18.49" "18.49"] bmi_category_bands [of "Fin 24.99" "24.99"]
    bmi_category_bands [of "Fin 29.99" "29.99"] bmi_category_bands [of "Fin 41" 41]
    bmi_category_bands [of NaN 0]
  by simp

text \<open>
  C3, as the specification states it: \<open>calculate_bmi\<close> fails if and only if
  \<open>height \<le> 0\<close>, so that no call with \<open>height > 0\<close> fails. The height \<open>1e200\<close> is
  positive and its square overflows: the call raises \<open>OverflowError\<close>.
\<close>

theorem calculate_bmi_huge_height_counterexample:
  "float_literal ''1e200'' = Some (Fin (10 ^ 200)) \<and>
   (0::real) < 10 ^ 200 \<and> \<not> fle (Fin (10 ^ 200)) (Fin 0) \<and>
   calculate_bmi (Fin 70) (Fin (10 ^ 200)) = Inl OverflowError"
proof -
  have lit: "float_literal ''1e200'' = Some (Fin (10 ^ 200))"
    by (simp add: run_defs)
  have pos: "(0::real) < 10 ^ 200"
    by simp
  have sq: "overflow_at \<le> (10 ^ 200 :: real) ^ 2"
    by (simp add: overflow_at_def)
  from pos have nle: "\<not> fle (Fin (10 ^ 200)) (Fin 0)"
    by simp
  from lit pos nle calculate_bmi_overflow [OF pos sq] show ?thesis
    by (intro conjI)
qed

text \<open>
  C3, amended. For every weight and every height, \<open>calculate_bmi\<close> fails with the
  input-validation error if and only if \<open>height \<le> 0\<close>: it does for height zero and for
  every negative height, whatever the weight, and it does not for any other height. A call
  with a finite \<open>height > 0\<close> whose square neither overflows nor rounds to zero returns a
  value.
\<close>

theorem calculate_bmi_fails_iff:
  "(calculate_bmi w h = Inl (ValueError ''Height must be positive and non-zero.''))
      = fle h (Fin 0) \<and>
   (\<exists>m. calculate_bmi w h = Inl (ValueError m)) = fle h (Fin 0) \<and>
   (\<forall>x. h = Fin x \<and> x \<le> 0 \<longrightarrow>
        calculate_bmi w h = Inl (ValueError ''Height must be positive and non-zero.'')) \<and>
   (\<forall>x. h = Fin x \<and> 0 < x \<and> underflow_at < x ^ 2 \<and> x ^ 2 < overflow_at \<longrightarrow>
        (\<exists>b. calculate_bmi w h = Inr b))"
proof -
  have "\<exists>b. calculate_bmi w (Fin x) = Inr b"
    if "0 < x" "underflow_at < x ^ 2" "x ^ 2 < overflow_at" for x
  proof -
    from that(1) have "x ^ 2 \<noteq> 0" by simp
    then have "\<exists>b. fdiv w (Fin (x ^ 2)) = Inr b" by simp
    with calculate_bmi_in_range [OF that] show ?thesis by simp
  qed
  then show ?thesis
    by (auto simp add: calculate_bmi_ValueError)
qed

theorem calculate_bmi_fails_iff_witness:
  "fle (Fin 0) (Fin 0) \<and> fle (Fin (- 1.75)) (Fin 0) \<and> fle NInf (Fin 0) \<and>
   calculate_bmi (Fin 70) (Fin 0) = Inl (ValueError ''Height must be positive and non-zero.'') \<and>
   calculate_bmi (Fin 70) (Fin (- 1.75)) =
     Inl (ValueError ''Height must be positive and non-zero.'') \<and>
   calculate_bmi (Fin 70) NInf = Inl (ValueError ''Height must be positive and non-zero.'') \<and>
   (0::real) < 1.75 \<and> underflow_at < (1.75::real) ^ 2 \<and> (1.75::real) ^ 2 < overflow_at \<and>
   (\<exists>b. calculate_bmi (Fin 70) (Fin 1.75) = Inr b)"
proof -
  have a: "(0::real) < 1.75" by simp
  have b: "underflow_at < (1.75::real) ^ 2"
    by (simp add: underflow_at_def power2_eq_square)
  have c: "(1.75::real) ^ 2 < overflow_at"
    by (simp add: overflow_at_def power2_eq_square)
  from calculate_bmi_fails_iff [of "Fin 70" "Fin 1.75"] a b c
  have ret: "\<exists>b. calculate_bmi (Fin 70) (Fin 1.75) = Inr b"
    by blast
  have z: "fle (Fin 0) (Fin 0)" and n: "fle (Fin (- 1.75)) (Fin 0)" and i: "fle NInf (Fin 0)"
    by simp_all
  from calculate_bmi_fails_iff [of "Fin 70" "Fin 0"] z
  have ez: "calculate_bmi (Fin 70) (Fin 0) =
      Inl (ValueError ''Height must be positive and non-zero.'')"
    by blast
  from calculate_bmi_fails_iff [of "Fin 70" "Fin (- 1.75)"] n
  have en: "calculate_bmi (Fin 70) (Fin (- 1.75)) =
      Inl (ValueError ''Height must be positive and non-zero.'')"
    by blast
  from calculate_bmi_fails_iff [of "Fin 70" NInf] i
  have ei: "calculate_bmi (Fin 70) NInf =
      Inl (ValueError ''Height must be positive and non-zero.'')"
    by blast
  from z n i ez en ei a b c ret show ?thesis by (intro conjI)
qed

subsection \<open>The save action\<close>

text \<open>
  C4. Every record stored by the save action satisfies \<open>bmi == weight / height**2\<close>, in the
  arithmetic of the floats, and \<open>category == bmi_category(bmi)\<close>, with the boundaries 18.5,
  25.0 and 30.0 in the upper band; and no record is created with \<open>height \<le> 0\<close>: the action
  is rejected and the database stays as it was. A run of the action ends in one of three
  ways: it is rejected and writes nothing; or \<open>save_record\<close> raises on a NaN and no record is
  written; or exactly one record is appended, which satisfies the invariant.
\<close>

theorem save_action_record_invariant:
  assumes "on_calculate_and_save to_float now d name_var weight_var height_var = (out, d')"
  shows "((d' = d \<and> (out = MissingName \<or> out = InputError)) \<or>
          (out = Raised IntegrityError \<and> records d' = records d) \<or>
          (\<exists>r. out = Saved (strip name_var) (rec_bmi r) (rec_category r) \<and>
               records d' = records d @ [r] \<and>
               to_float weight_var = Some (rec_weight_kg r) \<and>
               to_float height_var = Some (rec_height_m r) \<and>
               flt (Fin 0) (rec_height_m r) \<and>
               calculate_bmi (rec_weight_kg r) (rec_height_m r) = Inr (rec_bmi r) \<and>
               (\<exists>sq. fpow2 (rec_height_m r) = Inr sq \<and>
                     fdiv (rec_weight_kg r) sq = Inr (rec_bmi r)) \<and>
               (\<forall>w h. rec_weight_kg r = Fin w \<and> rec_height_m r = Fin h \<longrightarrow>
                      rec_bmi r = fround (w / h ^ 2)) \<and>
               \<not> isnan (rec_weight_kg r) \<and> \<not> isnan (rec_height_m r) \<and>
               \<not> isnan (rec_bmi r) \<and>
               rec_category r = bmi_category (rec_bmi r) \<and>
               (rec_category r = ''Underweight'') = flt (rec_bmi r) (Fin 18.5) \<and>
               (rec_category r = ''Normal'') =
                  (fle (Fin 18.5) (rec_bmi r) \<and> flt (rec_bmi r) (Fin 25.0)) \<and>
               (rec_category r = ''Overweight'') =
                  (fle (Fin 25.0) (rec_bmi r) \<and> flt (rec_bmi r) (Fin 30.0)) \<and>
               (rec_category r = ''Obese'') = fle (Fin 30.0) (rec_bmi r))) \<and>
         (\<forall>h. to_float height_var = Some h \<and> fle h (Fin 0) \<longrightarrow>
               d' = d \<and> (out = MissingName \<or> out = InputError))"
proof (cases rule: save_action_inputs [of name_var to_float weight_var height_var])
  case rejected
  from on_calculate_and_save_rejected [OF rejected, of now d] assms
  have "d' = d \<and> (out = MissingName \<or> out = InputError)" by auto
  then show ?thesis by simp
next
  case (nan w h b)
  from on_calculate_and_save_nan [OF nan, of now d] assms
  have "out = Raised IntegrityError" "d' = snd (get_or_create_user d (strip name_var))"
    by simp_all
  then have "out = Raised IntegrityError \<and> records d' = records d"
    by (simp add: get_or_create_user_records)
  moreover from calculate_bmi_Inr [OF nan(4)] have "\<not> fle h (Fin 0)" by simp
  ultimately show ?thesis using nan(3) by simp
next
  case (accepted w h b)
  let ?r = "\<lparr>rec_id = next_rowid (records_seq d) (map rec_id (records d)),
             rec_user_id = the (fst (get_or_create_user d (strip name_var))),
             rec_date = now, rec_weight_kg = w, rec_height_m = h, rec_bmi = b,
             rec_category = bmi_category b\<rparr>"
  from on_calculate_and_save_accepted [OF accepted, of now d] assms
  have out: "out = Saved (strip name_var) b (bmi_category b)"
    and recs: "records d' = records d @ [?r]"
    by auto
  note nn = calculate_bmi_not_nan [OF accepted(4,5)]
  note ops = calculate_bmi_Inr [OF accepted(4)]
  have fin: "b = fround (x / y ^ 2)" if "w = Fin x" "h = Fin y" for x y
    using accepted(4) that by (auto intro: calculate_bmi_finite)
  from ops have "\<not> fle h (Fin 0)" by simp
  with accepted out recs nn ops fin bmi_category_cases [OF accepted(5)] show ?thesis
    by (intro conjI disjI2 exI [of _ ?r]) simp_all
qed

theorem save_action_record_invariant_witness:
  "on_calculate_and_save float_literal ''2024-01-01T10:00:00'' init_db ''Bob'' ''70'' ''1.75'' =
     (Saved ''Bob'' (Fin (160 / 7)) ''Normal'',
      \<lparr>users = [\<lparr>usr_id = 1, usr_name = ''Bob''\<rparr>],
       records = [\<lparr>rec_id = 1, rec_user_id = 1, rec_date = ''2024-01-01T10:00:00'',
                   rec_weight_kg = Fin 70, rec_height_m = Fin 1.75, rec_bmi = Fin (160 / 7),
                   rec_category = ''Normal''\<rparr>],
       users_seq = 1, records_seq = 1\<rparr>) \<and>
   calculate_bmi (Fin 70) (Fin 1.75) = Inr (Fin (160 / 7)) \<and>
   (160 / 7 :: real) = 70 / 1.75 ^ 2 \<and>
   bmi_category (Fin (160 / 7)) = ''Normal'' \<and>
   float_literal ''0'' = Some (Fin 0) \<and> fle (Fin 0) (Fin 0) \<and>
   on_calculate_and_save float_literal ''2024-01-01T10:00:00'' init_db ''Bob'' ''70'' ''0'' =
     (InputError, init_db) \<and>
   on_calculate_and_save float_literal ''2024-01-01T10:00:00'' init_db ''Bob'' ''nan'' ''1.75'' =
     (Raised IntegrityError,
      \<lparr>users = [\<lparr>usr_id = 1, usr_name = ''Bob''\<rparr>], records = [],
       users_seq = 1, records_seq = 0\<rparr>)"
proof -
  let ?r = "\<lparr>rec_id = 1, rec_user_id = 1, rec_date = ''2024-01-01T10:00:00'',
             rec_weight_kg = Fin 70, rec_height_m = Fin 1.75, rec_bmi = Fin (160 / 7),
             rec_category = ''Normal''\<rparr>"
  have run: "on_calculate_and_save float_literal ''2024-01-01T10:00:00'' init_db
               ''Bob'' ''70'' ''1.75'' =
     (Saved ''Bob'' (Fin (160 / 7)) ''Normal'',
      \<lparr>users = [\<lparr>usr_id = 1, usr_name = ''Bob''\<rparr>], records = [?r],
       users_seq = 1, records_seq = 1\<rparr>)"
    by (simp add: run_defs)
  have zero: "float_literal ''0'' = Some (Fin 0)"
    by (simp add: run_defs)
  have rej: "on_calculate_and_save float_literal ''2024-01-01T10:00:00'' init_db
               ''Bob'' ''70'' ''0'' = (InputError, init_db)"
    by (simp add: run_defs)
  have nan: "on_calculate_and_save float_literal ''2024-01-01T10:00:00'' init_db
               ''Bob'' ''nan'' ''1.75'' =
     (Raised IntegrityError,
      \<lparr>users = [\<lparr>usr_id = 1, usr_name = ''Bob''\<rparr>], records = [],
       users_seq = 1, records_seq = 0\<rparr>)"
    by (simp add: run_defs)
  have val: "(160 / 7 :: real) = 70 / 1.75 ^ 2"
    by (simp add: power2_eq_square)
  from save_action_record_invariant [OF run]
  have "calculate_bmi (rec_weight_kg ?r) (rec_height_m ?r) = Inr (rec_bmi ?r) \<and>
        rec_category ?r = bmi_category (rec_bmi ?r)"
    by (auto simp add: init_db_def)
  then have inv: "calculate_bmi (Fin 70) (Fin 1.75) = Inr (Fin (160 / 7)) \<and>
        bmi_category (Fin (160 / 7)) = ''Normal''"
    by simp
  from save_action_record_invariant [OF rej] zero
  have "init_db = init_db \<and> (InputError = MissingName \<or> InputError = InputError)"
    by simp
  with run rej nan zero val inv show ?thesis by simp
qed

text \<open>
  C7, as the specification states it: every record stored by the save action has a strictly
  positive weight. The weight field \<open>-5\<close> with the height field \<open>1.75\<close> is accepted and
  stored.
\<close>

theorem stored_weight_positive_counterexample:
  "on_calculate_and_save float_literal ''2024-01-01T10:00:00'' init_db ''Bob'' ''-5'' ''1.75'' =
     (Saved ''Bob'' (Fin (- (80 / 49))) ''Underweight'',
      \<lparr>users = [\<lparr>usr_id = 1, usr_name = ''Bob''\<rparr>],
       records = [\<lparr>rec_id = 1, rec_user_id = 1, rec_date = ''2024-01-01T10:00:00'',
                   rec_weight_kg = Fin (- 5), rec_height_m = Fin 1.75,
                   rec_bmi = Fin (- (80 / 49)), rec_category = ''Underweight''\<rparr>],
       users_seq = 1, records_seq = 1\<rparr>) \<and>
   \<not> flt (Fin 0) (Fin (- 5))"
  by (simp add: run_defs)

text \<open>
  C7, amended. Every record stored by the save action has the weight that \<open>float\<close> read
  from the weight field, a number that need not be positive, and a strictly positive
  height, for every input accepted by the save action.
\<close>

theorem stored_weight_is_input:
  assumes "on_calculate_and_save to_float now d name_var weight_var height_var =
             (Saved n b c, d')"
  shows "\<exists>r. records d' = records d @ [r] \<and>
             to_float weight_var = Some (rec_weight_kg r) \<and>
             \<not> isnan (rec_weight_kg r) \<and>
             flt (Fin 0) (rec_height_m r)"
proof (cases rule: save_action_inputs [of name_var to_float weight_var height_var])
  case rejected
  from on_calculate_and_save_rejected [OF rejected, of now d] assms
  show ?thesis by simp
next
  case (nan w h b')
  from on_calculate_and_save_nan [OF nan, of now d] assms
  show ?thesis by simp
next
  case (accepted w h b')
  let ?r = "\<lparr>rec_id = next_rowid (records_seq d) (map rec_id (records d)),
             rec_user_id = the (fst (get_or_create_user d (strip name_var))),
             rec_date = now, rec_weight_kg = w, rec_height_m = h, rec_bmi = b',
             rec_category = bmi_category b'\<rparr>"
  from on_calculate_and_save_accepted [OF accepted, of now d] assms
  have "records d' = records d @ [?r]" by auto
  with accepted(2) calculate_bmi_not_nan [OF accepted(4,5)] show ?thesis
    by (intro exI [of _ ?r]) simp
qed

theorem stored_weight_is_input_witness:
  "on_calculate_and_save float_literal ''2024-01-01T10:00:00'' init_db ''Bob'' ''0'' ''1.75'' =
     (Saved ''Bob'' (Fin 0) ''Underweight'',
      \<lparr>users = [\<lparr>usr_id = 1, usr_name = ''Bob''\<rparr>],
       records = [\<lparr>rec_id = 1, rec_user_id = 1, rec_date = ''2024-01-01T10:00:00'',
                   rec_weight_kg = Fin 0, rec_height_m = Fin 1.75, rec_bmi = Fin 0,
                   rec_category = ''Underweight''\<rparr>],
       users_seq = 1, records_seq = 1\<rparr>) \<and>
   float_literal ''0'' = Some (Fin 0) \<and> \<not> isnan (Fin 0) \<and> flt (Fin 0) (Fin 1.75)"
proof -
  let ?r = "\<lparr>rec_id = 1, rec_user_id = 1, rec_date = ''2024-01-01T10:00:00'',
             rec_weight_kg = Fin 0, rec_height_m = Fin 1.75, rec_bmi = Fin 0,
             rec_category = ''Underweight''\<rparr>"
  have run: "on_calculate_and_save float_literal ''2024-01-01T10:00:00'' init_db
               ''Bob'' ''0'' ''1.75'' =
     (Saved ''Bob'' (Fin 0) ''Underweight'',
      \<lparr>users = [\<lparr>usr_id = 1, usr_name = ''Bob''\<rparr>], records = [?r],
       users_seq = 1, records_seq = 1\<rparr>)"
    by (simp add: run_defs)
  from stored_weight_is_input [OF run]
  have "float_literal ''0'' = Some (rec_weight_kg ?r) \<and> \<not> isnan (rec_weight_kg ?r) \<and>
        flt (Fin 0) (rec_height_m ?r)"
    by (auto simp add: init_db_def)
  with run show ?thesis by simp
qed

text \<open>
  C10. For every name that is empty or consists of whitespace only, \<open>get_or_create_user\<close>
  returns \<open>None\<close> and leaves the database as it was, and the save action rejects the name
  before it creates a user row or a record row.
\<close>

theorem blank_name_rejected:
  assumes "\<forall>c\<in>set name. py_isspace c"
  shows "get_or_create_user d name = (None, d) \<and>
         on_calculate_and_save to_float now d name weight_var height_var = (MissingName, d)"
proof -
  from assms have "strip name = []" by (rule strip_all_space)
  then show ?thesis
    by (simp add: get_or_create_user_def on_calculate_and_save_def)
qed

theorem blank_name_rejected_witness:
  "py_isspace CHR '' '' \<and> py_isspace (CHR 0x09) \<and>
   get_or_create_user init_db [CHR '' '', CHR 0x09] = (None, init_db) \<and>
   on_calculate_and_save float_literal ''2024-01-01T10:00:00'' init_db [CHR '' '', CHR 0x09]
     ''70'' ''1.75'' = (MissingName, init_db) \<and>
   get_or_create_user init_db [] = (None, init_db) \<and>
   on_calculate_and_save float_literal ''2024-01-01T10:00:00'' init_db [] ''70'' ''1.75'' =
     (MissingName, init_db)"
proof -
  have sp: "py_isspace CHR '' ''" and tab: "py_isspace (CHR 0x09)"
    by (simp_all add: py_isspace_def)
  then have a: "\<forall>c\<in>set [CHR '' '', CHR 0x09]. py_isspace c" by simp
  have b: "\<forall>c\<in>set []. py_isspace c" by simp
  from blank_name_rejected
      [OF a, of init_db float_literal "''2024-01-01T10:00:00''" "''70''" "''1.75''"]
    blank_name_rejected
      [OF b, of init_db float_literal "''2024-01-01T10:00:00''" "''70''" "''1.75''"]
    sp tab
  show ?thesis by simp
qed



subsection \<open>Listing, statistics and export\<close>

text \<open>
  C9. For every user, the listing behind the history table, the chart and the CSV export,
  \<open>fetch_records_for_user\<close>, returns that user's records, each one once, in ascending order
  of their date field.
\<close>

theorem fetch_records_for_user_ordered:
  "sorted (map rec_date (fetch_records_for_user d user_id)) \<and>
   mset (fetch_records_for_user d user_id) =
     filter_mset (\<lambda>r. rec_user_id r = user_id) (mset (records d))"
  by (simp add: fetch_records_for_user_def)

text \<open>
  C8. Over an empty record set the summary shows "N/A" for the mean, the minimum and the
  maximum; over the BMI list 18, 22, 30 it shows the mean 23.33, the minimum 18.00 and the
  maximum 30.00, each with two decimals.
\<close>

theorem history_statistics:
  "(fetch_records_for_user d user_id = [] \<longrightarrow>
      populate_history_for_user d user_id =
        Some \<lparr>tree = [], stat_mean = ''Mean BMI: N/A'', stat_min = ''Min BMI: N/A'',
              stat_max = ''Max BMI: N/A''\<rparr>) \<and>
   (map rec_bmi (fetch_records_for_user d user_id) = [Fin 18, Fin 22, Fin 30] \<longrightarrow>
      (\<exists>v. populate_history_for_user d user_id = Some v \<and>
           stat_mean v = ''Mean BMI: 23.33'' \<and>
           stat_min v = ''Min BMI: 18.00'' \<and>
           stat_max v = ''Max BMI: 30.00''))"
  by (simp add: populate_history_for_user_def Let_def stats_18_22_30
      fmt_2f_mean fmt_2f_min fmt_2f_max)

theorem history_statistics_witness:
  "fetch_records_for_user init_db 1 = [] \<and>
   populate_history_for_user init_db 1 =
     Some \<lparr>tree = [], stat_mean = ''Mean BMI: N/A'', stat_min = ''Min BMI: N/A'',
           stat_max = ''Max BMI: N/A''\<rparr> \<and>
   map rec_bmi
     (fetch_records_for_user
        \<lparr>users = [\<lparr>usr_id = 1, usr_name = ''Ann''\<rparr>],
         records =
           [\<lparr>rec_id = 1, rec_user_id = 1, rec_date = ''2024-01-01T08:00:00'',
             rec_weight_kg = Fin 72, rec_height_m = Fin 2, rec_bmi = Fin 18,
             rec_category = ''Underweight''\<rparr>,
            \<lparr>rec_id = 2, rec_user_id = 1, rec_date = ''2024-02-01T08:00:00'',
             rec_weight_kg = Fin 88, rec_height_m = Fin 2, rec_bmi = Fin 22,
             rec_category = ''Normal''\<rparr>,
            \<lparr>rec_id = 3, rec_user_id = 1, rec_date = ''2024-03-01T08:00:00'',
             rec_weight_kg = Fin 120, rec_height_m = Fin 2, rec_bmi = Fin 30,
             rec_category = ''Obese''\<rparr>],
         users_seq = 1, records_seq = 3\<rparr> 1) = [Fin 18, Fin 22, Fin 30] \<and>
   (\<exists>v. populate_history_for_user
        \<lparr>users = [\<lparr>usr_id = 1, usr_name = ''Ann''\<rparr>],
         records =
           [\<lparr>rec_id = 1, rec_user_id = 1, rec_date = ''2024-01-01T08:00:00'',
             rec_weight_kg = Fin 72, rec_height_m = Fin 2, rec_bmi = Fin 18,
             rec_category = ''Underweight''\<rparr>,
            \<lparr>rec_id = 2, rec_user_id = 1, rec_date = ''2024-02-01T08:00:00'',
             rec_weight_kg = Fin 88, rec_height_m = Fin 2, rec_bmi = Fin 22,
             rec_category = ''Normal''\<rparr>,
            \<lparr>rec_id = 3, rec_user_id = 1, rec_date = ''2024-03-01T08:00:00'',
             rec_weight_kg = Fin 120, rec_height_m = Fin 2, rec_bmi = Fin 30,
             rec_category = ''Obese''\<rparr>],
         users_seq = 1, records_seq = 3\<rparr> 1 = Some v \<and>
      stat_mean v = ''Mean BMI: 23.33'' \<and>
      stat_min v = ''Min BMI: 18.00'' \<and>
      stat_max v = ''Max BMI: 30.00'')"
  (is "?none \<and> ?na \<and> ?three \<and> ?stats")
proof -
  have none: ?none
    by code_simp
  have three: ?three
    by code_simp
  have na: ?na
    by (rule history_statistics [of init_db 1, THEN conjunct1, THEN mp, OF none])
  have stats: ?stats
    by (rule history_statistics [THEN conjunct2, THEN mp, OF three])
  from none na three stats show ?thesis
    by (intro conjI)
qed

text \<open>
  C6, as the specification states it: the exported header is exactly
  \<open>date,weight_kg,height_m,bmi,category\<close> and, for the single record with weight 70 and
  height 1.75, the bmi of the data row is \<open>70/1.75**2\<close> rounded to the two decimals of the
  display. The display shows 22.86; the row written by the \<open>csv\<close> module holds the stored
  value \<open>160/7\<close>, which is not 22.86, and the file written through pandas starts with an
  \<open>id\<close> column.
\<close>

theorem export_rounded_bmi_counterexample:
  "export_history_csv False
     (snd (on_calculate_and_save float_literal ''2024-01-01T10:00:00'' init_db
            ''Bob'' ''70'' ''1.75''))
     ''Bob'' ''Bob_bmi_history.csv'' =
   Exported ''Bob_bmi_history.csv''
     [[CStr ''date'', CStr ''weight_kg'', CStr ''height_m'', CStr ''bmi'', CStr ''category''],
      [CStr ''2024-01-01T10:00:00'', CReal (Fin 70), CReal (Fin 1.75), CReal (Fin (160 / 7)),
       CStr ''Normal'']] \<and>
   (160 / 7 :: real) = 70 / 1.75 ^ 2 \<and>
   fmt_2f (Fin (160 / 7)) = ''22.86'' \<and>
   CReal (Fin (160 / 7)) \<noteq> CReal (Fin 22.86) \<and>
   export_history_csv True
     (snd (on_calculate_and_save float_literal ''2024-01-01T10:00:00'' init_db
            ''Bob'' ''70'' ''1.75''))
     ''Bob'' ''Bob_bmi_history.csv'' =
   Exported ''Bob_bmi_history.csv''
     [[CStr ''id'', CStr ''date'', CStr ''weight_kg'', CStr ''height_m'', CStr ''bmi'',
       CStr ''category''],
      [CInt 1, CStr ''2024-01-01T10:00:00'', CReal (Fin 70), CReal (Fin 1.75),
       CReal (Fin (160 / 7)), CStr ''Normal'']]"
proof -
  let ?d = "\<lparr>users = [\<lparr>usr_id = 1, usr_name = ''Bob''\<rparr>],
       records = [\<lparr>rec_id = 1, rec_user_id = 1, rec_date = ''2024-01-01T10:00:00'',
                   rec_weight_kg = Fin 70, rec_height_m = Fin 1.75, rec_bmi = Fin (160 / 7),
                   rec_category = ''Normal''\<rparr>],
       users_seq = 1, records_seq = 1\<rparr>"
  have run: "snd (on_calculate_and_save float_literal ''2024-01-01T10:00:00'' init_db
               ''Bob'' ''70'' ''1.75'') = ?d"
    by (simp add: run_defs)
  have csv: "export_history_csv False ?d ''Bob'' ''Bob_bmi_history.csv'' =
   Exported ''Bob_bmi_history.csv''
     [[CStr ''date'', CStr ''weight_kg'', CStr ''height_m'', CStr ''bmi'', CStr ''category''],
      [CStr ''2024-01-01T10:00:00'', CReal (Fin 70), CReal (Fin 1.75), CReal (Fin (160 / 7)),
       CStr ''Normal'']]"
    by code_simp
  have pandas: "export_history_csv True ?d ''Bob'' ''Bob_bmi_history.csv'' =
   Exported ''Bob_bmi_history.csv''
     [[CStr ''id'', CStr ''date'', CStr ''weight_kg'', CStr ''height_m'', CStr ''bmi'',
       CStr ''category''],
      [CInt 1, CStr ''2024-01-01T10:00:00'', CReal (Fin 70), CReal (Fin 1.75),
       CReal (Fin (160 / 7)), CStr ''Normal'']]"
    by code_simp
  have val: "(160 / 7 :: real) = 70 / 1.75 ^ 2"
    by (simp add: power2_eq_square)
  have shown: "fmt_2f (Fin (160 / 7)) = ''22.86''"
    by code_simp
  have ne: "CReal (Fin (160 / 7)) \<noteq> CReal (Fin 22.86)"
    by simp
  from csv pandas val shown ne show ?thesis
    unfolding run by (intro conjI)
qed

text \<open>
  C6, amended. When a user is selected who has records and a file is chosen, the export
  through the \<open>csv\<close> module writes the header row \<open>date,weight_kg,height_m,bmi,category\<close>
  followed by one data row per record of that user, in the order of the listing; each data
  row holds the stored date, weight, height, bmi and category as they are, the bmi not
  rounded.
\<close>

theorem export_csv_module_rows:
  assumes "strip user_combo_var \<noteq> []"
    and "find (\<lambda>u. usr_name u = strip user_combo_var) (fetch_users d) = Some u"
    and "fetch_records_for_user d (usr_id u) \<noteq> []"
    and "path \<noteq> []"
  shows "export_history_csv False d user_combo_var path =
     Exported path
       ([CStr ''date'', CStr ''weight_kg'', CStr ''height_m'', CStr ''bmi'', CStr ''category''] #
        map (\<lambda>r. [CStr (rec_date r), CReal (rec_weight_kg r), CReal (rec_height_m r),
                  CReal (rec_bmi r), CStr (rec_category r)])
            (fetch_records_for_user d (usr_id u)))"
  using assms
  by (simp add: export_history_csv_def fetch_all_records_for_user_as_dicts_def Let_def
      comp_def those_map_Some)

theorem export_csv_module_rows_witness:
  "strip ''Bob'' \<noteq> [] \<and> ''Bob_bmi_history.csv'' \<noteq> [] \<and>
   snd (on_calculate_and_save float_literal ''2024-01-01T10:00:00'' init_db
          ''Bob'' ''70'' ''1.75'') =
     \<lparr>users = [\<lparr>usr_id = 1, usr_name = ''Bob''\<rparr>],
      records = [\<lparr>rec_id = 1, rec_user_id = 1, rec_date = ''2024-01-01T10:00:00'',
                  rec_weight_kg = Fin 70, rec_height_m = Fin 1.75, rec_bmi = Fin (160 / 7),
                  rec_category = ''Normal''\<rparr>],
      users_seq = 1, records_seq = 1\<rparr> \<and>
   (160 / 7 :: real) = 70 / 1.75 ^ 2 \<and>
   find (\<lambda>u. usr_name u = strip ''Bob'')
     (fetch_users
        (snd (on_calculate_and_save float_literal ''2024-01-01T10:00:00'' init_db
               ''Bob'' ''70'' ''1.75''))) =
     Some \<lparr>usr_id = 1, usr_name = ''Bob''\<rparr> \<and>
   export_history_csv False
     (snd (on_calculate_and_save float_literal ''2024-01-01T10:00:00'' init_db
            ''Bob'' ''70'' ''1.75''))
     ''Bob'' ''Bob_bmi_history.csv'' =
     Exported ''Bob_bmi_history.csv''
       [[CStr ''date'', CStr ''weight_kg'', CStr ''height_m'', CStr ''bmi'', CStr ''category''],
        [CStr ''2024-01-01T10:00:00'', CReal (Fin 70), CReal (Fin 1.75),
         CReal (Fin (160 / 7)), CStr ''Normal'']]"
proof -
  let ?u = "\<lparr>usr_id = 1, usr_name = ''Bob''\<rparr>"
  let ?r = "\<lparr>rec_id = 1, rec_user_id = 1, rec_date = ''2024-01-01T10:00:00'',
             rec_weight_kg = Fin 70, rec_height_m = Fin 1.75, rec_bmi = Fin (160 / 7),
             rec_category = ''Normal''\<rparr>"
  let ?d = "\<lparr>users = [?u], records = [?r], users_seq = 1, records_seq = 1\<rparr>"
  have run: "snd (on_calculate_and_save float_literal ''2024-01-01T10:00:00'' init_db
               ''Bob'' ''70'' ''1.75'') = ?d"
    by (simp add: run_defs)
  have val: "(160 / 7 :: real) = 70 / 1.75 ^ 2"
    by (simp add: power2_eq_square)
  have a1: "strip ''Bob'' \<noteq> []"
    by (simp add: run_defs)
  have a2: "find (\<lambda>u. usr_name u = strip ''Bob'') (fetch_users ?d) = Some ?u"
    by code_simp
  have recs: "fetch_records_for_user ?d 1 = [?r]"
    by code_simp
  then have a3: "fetch_records_for_user ?d (usr_id ?u) \<noteq> []"
    by simp
  have a4: "''Bob_bmi_history.csv'' \<noteq> []"
    by simp
  from export_csv_module_rows [OF a1 a2 a3 a4] recs
  have "export_history_csv False ?d ''Bob'' ''Bob_bmi_history.csv'' =
     Exported ''Bob_bmi_history.csv''
       [[CStr ''date'', CStr ''weight_kg'', CStr ''height_m'', CStr ''bmi'', CStr ''category''],
        [CStr ''2024-01-01T10:00:00'', CReal (Fin 70), CReal (Fin 1.75),
         CReal (Fin (160 / 7)), CStr ''Normal'']]"
    by simp
  with a1 a2 a4 val show ?thesis
    unfolding run by (intro conjI refl)
qed

end
